theory Spec2Isabelle
  imports Main "HOL-Library.Char_ord" "HOL-Library.List_Lexorder"
begin

section \<open>Remote data client of the skin browser (exec2.py)\<close>

text \<open>
  Python strings and byte strings are modelled as \<^typ>\<open>string\<close>; a character outside
  ASCII stands as its UTF-8 bytes. The network is not part of the program: the
  behaviour of \<^verbatim>\<open>requests.get\<close> at the moment of one call is a function from the URL to
  either the exception it raises or the response it returns. Every helper makes at most
  one request, so every helper takes one such function.
\<close>

subsection \<open>Exceptions and responses\<close>

text \<open>
  The exception classes the program distinguishes. \<open>RequestException\<close> stands for
  \<^verbatim>\<open>requests.exceptions.RequestException\<close> and all of its subclasses (connection error,
  timeout, the \<^verbatim>\<open>HTTPError\<close> of \<^verbatim>\<open>raise_for_status\<close>); \<open>OtherException\<close> is any
  \<^verbatim>\<open>Exception\<close> outside that hierarchy and outside the two builtin classes named here.
\<close>

datatype exn =
    RequestException string
  | NameError string
  | OSError string
  | OtherException string

fun is_RequestException :: "exn \<Rightarrow> bool" where
  "is_RequestException (RequestException m) = True"
| "is_RequestException (NameError n) = False"
| "is_RequestException (OSError m) = False"
| "is_RequestException (OtherException m) = False"

text \<open>
  \<^verbatim>\<open>str(e)\<close>, as the f-strings of the handlers format an exception. The message of a
  library exception is the string the constructor carries.
\<close>

fun str_exn :: "exn \<Rightarrow> string" where
  "str_exn (RequestException m) = m"
| "str_exn (NameError n) = ''name '' @ [CHR 0x27] @ n @ [CHR 0x27] @ '' is not defined''"
| "str_exn (OSError m) = m"
| "str_exn (OtherException m) = m"

text \<open>
  A response: its status, its body, and what \<^verbatim>\<open>Response.json()\<close> gives on it (the
  parsed document, or the exception of the parser). The document of an endpoint has the
  type of the shape the catalog API serves there, \<open>'j\<close>.
\<close>

record 'j response =
  status_code :: int
  content :: string
  json :: "exn + 'j"

type_synonym 'j net = "string \<Rightarrow> exn + 'j response"

definition requests_get :: "'j net \<Rightarrow> string \<Rightarrow> exn + 'j response" where
  "requests_get net url = net url"

text \<open>\<^verbatim>\<open>Response.raise_for_status\<close>: an \<^verbatim>\<open>HTTPError\<close> for a 4xx or 5xx status.\<close>

definition raise_for_status :: "'j response \<Rightarrow> exn + unit" where
  "raise_for_status resp =
     (if 400 \<le> status_code resp \<and> status_code resp < 600
      then Inl (RequestException ''HTTPError'')
      else Inr ())"

subsection \<open>Helpers\<close>

text \<open>\<^verbatim>\<open>str.startswith\<close>.\<close>

definition startswith :: "string \<Rightarrow> string \<Rightarrow> bool" where
  "startswith s p = (take (length p) s = p)"

definition CDN_BASE :: string where
  "CDN_BASE = ''https://raw.communitydragon.org/latest''"

text \<open>
  \<^verbatim>\<open>normalize_cdragon_path(path: str | None) -> str\<close>. \<^verbatim>\<open>not path\<close> holds for \<^verbatim>\<open>None\<close>
  and for the empty string.
\<close>

definition normalize_cdragon_path :: "string option \<Rightarrow> string" where
  "normalize_cdragon_path path =
     (case path of
        None \<Rightarrow> ''''
      | Some p \<Rightarrow>
          if p = [] then ''''
          else if startswith p ''http://'' \<or> startswith p ''https://'' then p
          else (let p' = (if \<not> startswith p ''/'' then ''/'' @ p else p)
                in CDN_BASE @ p'))"

text \<open>
  \<^verbatim>\<open>check_url_exists\<close>: the \<^verbatim>\<open>except\<close> clause names
  \<^verbatim>\<open>requests.exceptions.RequestException\<close>; an exception of another class is not caught
  and leaves the function.
\<close>

definition check_url_exists :: "'j net \<Rightarrow> string \<Rightarrow> exn + bool" where
  "check_url_exists net url =
     (case requests_get net url of
        Inr response \<Rightarrow> Inr (status_code response = 200)
      | Inl e \<Rightarrow> if is_RequestException e then Inr False else Inl e)"

text \<open>\<^verbatim>\<open>fetch_json\<close>.\<close>

definition fetch_json :: "'j net \<Rightarrow> string \<Rightarrow> exn + 'j" where
  "fetch_json net url =
     (case requests_get net url of
        Inl e \<Rightarrow> Inl e
      | Inr resp \<Rightarrow>
          (case raise_for_status resp of
             Inl e \<Rightarrow> Inl e
           | Inr _ \<Rightarrow> json resp))"

subsection \<open>Data access\<close>

text \<open>
  The JSON objects of the catalog, as records of the keys the program reads. A key the
  program reads with \<^verbatim>\<open>.get\<close> may be absent and is an option; a key it reads by
  subscript is a field.
\<close>

record champion =
  champ_id :: int
  champ_name :: string

record chroma =
  chroma_name :: string
  chroma_splashPath :: "string option"

record skin =
  skin_name :: string
  isBase :: "bool option"
  splashPath :: "string option"
  chromas :: "chroma list option"

record champion_detail =
  detail_id :: int
  skins :: "skin list"

text \<open>The decimal text of an integer, as an f-string formats it.\<close>

definition digit_char :: "nat \<Rightarrow> char" where
  "digit_char d = char_of (of_char (CHR ''0'') + d)"

function str_nat :: "nat \<Rightarrow> string" where
  "str_nat n = (if n < 10 then [digit_char n] else str_nat (n div 10) @ [digit_char (n mod 10)])"
  by pat_completeness auto
termination
  by (relation "measure (\<lambda>n. n)") auto

declare str_nat.simps [simp del]

definition str_int :: "int \<Rightarrow> string" where
  "str_int i = (if i < 0 then ''-'' @ str_nat (nat (- i)) else str_nat (nat i))"

definition SUMMARY_URL :: string where
  "SUMMARY_URL = ''https://raw.communitydragon.org/latest/plugins/rcp-be-lol-game-data/global/default/v1/champion-summary.json''"

definition detail_url :: "int \<Rightarrow> string" where
  "detail_url cid = ''https://raw.communitydragon.org/latest/plugins/rcp-be-lol-game-data/global/default/v1/champions/'' @ str_int cid @ ''.json''"

definition get_champion_summary :: "champion list net \<Rightarrow> exn + champion list" where
  "get_champion_summary net = fetch_json net SUMMARY_URL"

definition get_champion_detail :: "champion_detail net \<Rightarrow> int \<Rightarrow> exn + champion_detail" where
  "get_champion_detail net cid = fetch_json net (detail_url cid)"

subsection \<open>Downloading an archive\<close>

text \<open>
  The file system: the content of each file, and the paths where \<^verbatim>\<open>open(path, 'wb')\<close>
  fails (no parent directory, no permission, a directory of that name).
\<close>

record filesystem =
  files :: "string \<rightharpoonup> string"
  denied :: "string set"

definition GITHUB_ZIP_BASE :: string where
  "GITHUB_ZIP_BASE = ''https://raw.githubusercontent.com/darkseal-org/lol-skins/main/skins/''"

text \<open>
  \<^verbatim>\<open>download_zip\<close>. The operator \<^verbatim>\<open>/\<close> of \<^verbatim>\<open>pathlib\<close> is the parameter \<open>truediv\<close>.
  The result is the exception raised, with the file system as it was, or the returned
  path with the file system after the write.
\<close>

definition download_zip ::
  "(string \<Rightarrow> string \<Rightarrow> string) \<Rightarrow> 'j net \<Rightarrow> string \<Rightarrow> string \<Rightarrow> string \<Rightarrow> filesystem
     \<Rightarrow> exn + string \<times> filesystem" where
  "download_zip truediv net champion zip_name target_dir fs =
     (let url = GITHUB_ZIP_BASE @ champion @ ''/'' @ zip_name in
      case requests_get net url of
        Inl e \<Rightarrow> Inl e
      | Inr response \<Rightarrow>
          (case raise_for_status response of
             Inl e \<Rightarrow> Inl e
           | Inr _ \<Rightarrow>
               (let target_file = truediv target_dir zip_name in
                if target_file \<in> denied fs then Inl (OSError target_file)
                else Inr (target_file,
                          fs\<lparr>files := (files fs)(target_file \<mapsto> content response)\<rparr>))))"

section \<open>The window (class SkinChangerApp)\<close>

subsection \<open>State\<close>

text \<open>
  An image as \<^verbatim>\<open>PIL\<close> holds it: its size and its pixel data. \<^verbatim>\<open>Image.open\<close> and the
  resampling of \<^verbatim>\<open>Image.resize\<close> belong to the library and are parameters.
\<close>

record pil_image =
  img_size :: "nat \<times> nat"
  img_pixels :: string

record pil =
  pil_open :: "string \<Rightarrow> exn + pil_image"
  pil_resample :: "pil_image \<Rightarrow> nat \<times> nat \<Rightarrow> string"

definition resize :: "pil \<Rightarrow> pil_image \<Rightarrow> nat \<times> nat \<Rightarrow> pil_image" where
  "resize lib img sz = \<lparr>img_size = sz, img_pixels = pil_resample lib img sz\<rparr>"

text \<open>
  The preview label: its options \<^verbatim>\<open>text\<close> and \<^verbatim>\<open>image\<close>, and the attribute \<^verbatim>\<open>image\<close>
  the program sets on the widget to keep the photo referenced.
\<close>

record label =
  label_text :: string
  label_image :: "pil_image option"
  image_ref :: "pil_image option"

text \<open>
  The bodies the program hands to \<^verbatim>\<open>threading.Thread\<close>, with their arguments: the
  closure of \<^verbatim>\<open>_populate_champions_async\<close>, \<^verbatim>\<open>_load_champ_data\<close> with the champion's
  id, and the closure of \<^verbatim>\<open>_show_image_async\<close> with its URL. The download button and
  its thread are left out of the window's model; \<^verbatim>\<open>download_zip\<close> is modelled above.
\<close>

datatype task =
    PopulateChampions
  | LoadChampData int
  | ShowImage string

text \<open>
  The attributes and widgets of the window the handlers read and write, and the threads
  started and not yet finished, in the order they were started.
\<close>

record app =
  champions :: "champion list"
  current_champion_data :: "champion_detail option"
  var_champion :: string
  var_skin :: string
  var_chroma :: string
  var_status :: string
  cmb_champion_values :: "string list"
  cmb_skin_values :: "string list"
  cmb_chroma_values :: "string list"
  preview_label :: label
  threads :: "task list"

text \<open>The characters outside ASCII of the program's texts, in UTF-8.\<close>

definition ellipsis :: string where
  "ellipsis = [CHR 0xE2, CHR 0x80, CHR 0xA6]"

definition em_dash :: string where
  "em_dash = [CHR 0xE2, CHR 0x80, CHR 0x94]"

definition e_acute :: string where
  "e_acute = [CHR 0xC3, CHR 0xA9]"

definition apostrophe :: string where
  "apostrophe = [CHR 0x27]"

text \<open>\<^verbatim>\<open>__init__\<close>, after \<^verbatim>\<open>_build_widgets\<close> and \<^verbatim>\<open>_populate_champions_async\<close>.\<close>

definition init_app :: app where
  "init_app =
     \<lparr>champions = [], current_champion_data = None,
      var_champion = '''', var_skin = '''', var_chroma = '''',
      var_status = ''Chargement des champions'' @ ellipsis,
      cmb_champion_values = [], cmb_skin_values = [], cmb_chroma_values = [],
      preview_label = \<lparr>label_text = '''', label_image = None, image_ref = None\<rparr>,
      threads = [PopulateChampions]\<rparr>"

subsection \<open>Preview\<close>

text \<open>
  The names bound in the module when a function body runs: those of the \<^verbatim>\<open>import\<close>
  statements and of the definitions of the file. A name that is neither among them nor
  a builtin raises \<^verbatim>\<open>NameError\<close> where it is evaluated.
\<close>

definition module_globals :: "string list" where
  "module_globals =
     [''io'', ''os'', ''subprocess'', ''threading'', ''requests'', ''Path'', ''messagebox'',
      ''tk'', ''ttk'', ''shutil'', ''USER_PROFILE'', ''LOCAL_SKIN_CACHE'', ''GITHUB_ZIP_BASE'',
      ''fetch_json'', ''normalize_cdragon_path'', ''check_url_exists'',
      ''get_champion_summary'', ''get_champion_detail'', ''download_zip'', ''open_explorer'',
      ''SkinChangerApp'']"

definition load_global :: "string \<Rightarrow> exn + unit" where
  "load_global n = (if n \<in> set module_globals then Inr () else Inl (NameError n))"

definition PLACEHOLDER :: string where
  "PLACEHOLDER = ''[Impossible d'' @ apostrophe @ ''afficher l'' @ apostrophe @ ''image]''"

definition OVERLAY_PREFIX :: string where
  "OVERLAY_PREFIX = ''[Impossible d'' @ apostrophe @ ''afficher] ''"

text \<open>
  The \<^verbatim>\<open>try\<close> block of the closure \<^verbatim>\<open>task\<close> of \<^verbatim>\<open>_show_image_async\<close>, up to the photo it
  displays. \<^verbatim>\<open>Image.open(...)\<close> evaluates the name \<^verbatim>\<open>Image\<close> first, and
  \<^verbatim>\<open>ImageTk.PhotoImage(...)\<close> the name \<^verbatim>\<open>ImageTk\<close>.
\<close>

definition fetch_photo :: "pil \<Rightarrow> 'j net \<Rightarrow> string \<Rightarrow> exn + pil_image" where
  "fetch_photo lib net url =
     (case requests_get net url of
        Inl e \<Rightarrow> Inl e
      | Inr img_data \<Rightarrow>
          (case raise_for_status img_data of
             Inl e \<Rightarrow> Inl e
           | Inr _ \<Rightarrow>
               (case load_global ''Image'' of
                  Inl e \<Rightarrow> Inl e
                | Inr _ \<Rightarrow>
                    (case pil_open lib (content img_data) of
                       Inl e \<Rightarrow> Inl e
                     | Inr img \<Rightarrow>
                         (let img_pil = resize lib img (512, 288) in
                          case load_global ''ImageTk'' of
                            Inl e \<Rightarrow> Inl e
                          | Inr _ \<Rightarrow> Inr img_pil)))))"

text \<open>The closure \<^verbatim>\<open>task\<close> of \<^verbatim>\<open>_show_image_async\<close>, on the preview label.\<close>

definition show_image_task :: "pil \<Rightarrow> 'j net \<Rightarrow> string \<Rightarrow> label \<Rightarrow> label" where
  "show_image_task lib net url lbl =
     (case fetch_photo lib net url of
        Inr photo \<Rightarrow> lbl\<lparr>image_ref := Some photo, label_image := Some photo, label_text := ''''\<rparr>
      | Inl e \<Rightarrow> lbl\<lparr>label_text := OVERLAY_PREFIX @ str_exn e\<rparr>)"

text \<open>
  \<^verbatim>\<open>_show_image_async\<close>, which runs in the caller's thread up to the start of the
  closure. The result is the state it leaves, with the exception that left it, if one
  did: \<^verbatim>\<open>check_url_exists\<close> is called outside any \<^verbatim>\<open>try\<close>.
\<close>

definition show_image_async :: "'j net \<Rightarrow> string option \<Rightarrow> app \<Rightarrow> exn option \<times> app" where
  "show_image_async net path st =
     (let url = normalize_cdragon_path path in
      if url = [] then
        (None, st\<lparr>preview_label := (preview_label st)\<lparr>label_text := PLACEHOLDER\<rparr>\<rparr>)
      else
        (case check_url_exists net url of
           Inl e \<Rightarrow> (Some e, st)
         | Inr ok \<Rightarrow>
             if \<not> ok then
               (None, st\<lparr>preview_label := (preview_label st)\<lparr>label_text := PLACEHOLDER\<rparr>\<rparr>)
             else (None, st\<lparr>threads := threads st @ [ShowImage url]\<rparr>)))"

subsection \<open>Events\<close>

text \<open>
  \<^verbatim>\<open>next((x for x in xs if p(x)), None)\<close> is \<^const>\<open>find\<close>. A held detail has the key
  \<^verbatim>\<open>skins\<close>, so as a dictionary it is not empty and \<^verbatim>\<open>not self.current_champion_data\<close>
  holds for \<^verbatim>\<open>None\<close> only.
\<close>

definition on_champion_selected :: "app \<Rightarrow> app" where
  "on_champion_selected st =
     (let selected = var_champion st in
      if selected = [] then st
      else
        (case find (\<lambda>c. champ_name c = selected) (champions st) of
           None \<Rightarrow> st
         | Some champ \<Rightarrow>
             st\<lparr>var_status := ''Chargement des skins'' @ ellipsis,
                threads := threads st @ [LoadChampData (champ_id champ)]\<rparr>))"

definition on_skin_selected :: "'j net \<Rightarrow> app \<Rightarrow> exn option \<times> app" where
  "on_skin_selected net st =
     (let selected = var_skin st in
      if selected = [] then (None, st)
      else
        (case current_champion_data st of
           None \<Rightarrow> (None, st)
         | Some data \<Rightarrow>
             (case find (\<lambda>s. skin_name s = selected) (skins data) of
                None \<Rightarrow> (None, st)
              | Some skin \<Rightarrow>
                  (let chroma_names =
                         map chroma_name (case chromas skin of None \<Rightarrow> [] | Some cs \<Rightarrow> cs);
                       st1 = st\<lparr>cmb_chroma_values :=
                                  (if chroma_names \<noteq> [] then chroma_names else [em_dash])\<rparr>;
                       st2 = st1\<lparr>var_chroma :=
                                  (case chroma_names of [] \<Rightarrow> em_dash | c # _ \<Rightarrow> c)\<rparr>
                   in show_image_async net (splashPath skin) st2))))"

text \<open>
  \<^verbatim>\<open>on_chroma_selected\<close> subscripts \<^verbatim>\<open>current_champion_data\<close> without a test: on
  \<^verbatim>\<open>None\<close> that is a \<^verbatim>\<open>TypeError\<close>.
\<close>

definition on_chroma_selected :: "'j net \<Rightarrow> app \<Rightarrow> exn option \<times> app" where
  "on_chroma_selected net st =
     (let selected = var_chroma st in
      if selected = em_dash \<or> selected = [] then (None, st)
      else
        (case current_champion_data st of
           None \<Rightarrow> (Some (OtherException ''TypeError''), st)
         | Some data \<Rightarrow>
             (case find (\<lambda>s. skin_name s = var_skin st) (skins data) of
                None \<Rightarrow> (None, st)
              | Some skin \<Rightarrow>
                  (case find (\<lambda>c. chroma_name c = selected)
                          (case chromas skin of None \<Rightarrow> [] | Some cs \<Rightarrow> cs) of
                     None \<Rightarrow> (None, st)
                   | Some chroma \<Rightarrow> show_image_async net (chroma_splashPath chroma) st))))"

subsection \<open>Thread bodies\<close>

text \<open>The closure \<^verbatim>\<open>task\<close> of \<^verbatim>\<open>_populate_champions_async\<close>; \<^verbatim>\<open>sorted\<close> is stable.\<close>

definition populate_champions_task :: "champion list net \<Rightarrow> app \<Rightarrow> app" where
  "populate_champions_task net st =
     (case get_champion_summary net of
        Inl e \<Rightarrow> st\<lparr>var_status := ''Erreur chargement champions : '' @ str_exn e\<rparr>
      | Inr summary \<Rightarrow>
          (let cs = sort_key champ_name summary in
           st\<lparr>champions := cs,
              cmb_champion_values := map champ_name cs,
              var_status := ''Choisissez un champion.''\<rparr>))"

text \<open>\<^verbatim>\<open>s.get("isBase", False)\<close>.\<close>

definition get_isBase :: "skin \<Rightarrow> bool" where
  "get_isBase s = (case isBase s of None \<Rightarrow> False | Some b \<Rightarrow> b)"

text \<open>\<^verbatim>\<open>_load_champ_data\<close>.\<close>

definition load_champ_data :: "champion_detail net \<Rightarrow> int \<Rightarrow> app \<Rightarrow> app" where
  "load_champ_data net cid st =
     (case get_champion_detail net cid of
        Inl e \<Rightarrow> st\<lparr>var_status := ''Erreur chargement skins : '' @ str_exn e\<rparr>
      | Inr data \<Rightarrow>
          (let st1 = st\<lparr>current_champion_data := Some data\<rparr>;
               skin_names = map skin_name (filter (\<lambda>s. \<not> get_isBase s) (skins data))
           in st1\<lparr>cmb_skin_values := skin_names,
                  var_skin := '''',
                  cmb_chroma_values := [],
                  var_chroma := '''',
                  var_status := ''S'' @ e_acute @ ''lectionnez un skin.''\<rparr>))"

subsection \<open>The user and the scheduler\<close>

text \<open>
  Choosing an entry of a read-only combobox writes it to the widget's variable and then
  runs the handler bound to the selection event.
\<close>

definition select_champion :: "string \<Rightarrow> app \<Rightarrow> app" where
  "select_champion name st = on_champion_selected (st\<lparr>var_champion := name\<rparr>)"

definition select_skin :: "'j net \<Rightarrow> string \<Rightarrow> app \<Rightarrow> exn option \<times> app" where
  "select_skin net name st = on_skin_selected net (st\<lparr>var_skin := name\<rparr>)"

definition select_chroma :: "'j net \<Rightarrow> string \<Rightarrow> app \<Rightarrow> exn option \<times> app" where
  "select_chroma net name st = on_chroma_selected net (st\<lparr>var_chroma := name\<rparr>)"

text \<open>
  A started thread runs to its end: its body is applied to the state of that moment and
  the thread leaves the list. A thread that was not started does not run. Two bodies are
  taken one after the other here, in any order; the program has no lock and no queue.
\<close>

definition finish_populate :: "champion list net \<Rightarrow> app \<Rightarrow> app option" where
  "finish_populate net st =
     (if PopulateChampions \<in> set (threads st)
      then Some (populate_champions_task net (st\<lparr>threads := remove1 PopulateChampions (threads st)\<rparr>))
      else None)"

definition finish_load :: "champion_detail net \<Rightarrow> int \<Rightarrow> app \<Rightarrow> app option" where
  "finish_load net cid st =
     (if LoadChampData cid \<in> set (threads st)
      then Some (load_champ_data net cid (st\<lparr>threads := remove1 (LoadChampData cid) (threads st)\<rparr>))
      else None)"

definition finish_show_image :: "pil \<Rightarrow> 'j net \<Rightarrow> string \<Rightarrow> app \<Rightarrow> app option" where
  "finish_show_image lib net url st =
     (if ShowImage url \<in> set (threads st)
      then Some (st\<lparr>threads := remove1 (ShowImage url) (threads st),
                    preview_label := show_image_task lib net url (preview_label st)\<rparr>)
      else None)"

section \<open>Example worlds\<close>

text \<open>Concrete catalog data, networks and states, on which the theorems below are run.\<close>

definition ahri_detail :: champion_detail where
  "ahri_detail =
     \<lparr>detail_id = 103,
      skins =
        [\<lparr>skin_name = ''Ahri'', isBase = Some True,
          splashPath = Some ''/lol-game-data/assets/ahri_0.jpg'', chromas = None\<rparr>,
         \<lparr>skin_name = ''Dynasty Ahri'', isBase = Some False,
          splashPath = Some ''/lol-game-data/assets/ahri_1.jpg'', chromas = Some []\<rparr>,
         \<lparr>skin_name = ''Midnight Ahri'', isBase = None,
          splashPath = None,
          chromas = Some [\<lparr>chroma_name = ''Ruby'', chroma_splashPath = None\<rparr>]\<rparr>]\<rparr>"

definition zed_detail :: champion_detail where
  "zed_detail =
     \<lparr>detail_id = 238,
      skins =
        [\<lparr>skin_name = ''Zed'', isBase = Some True, splashPath = None, chromas = None\<rparr>,
         \<lparr>skin_name = ''Shockblade Zed'', isBase = Some False,
          splashPath = Some ''https://cdn.example.org/zed_1.jpg'', chromas = None\<rparr>]\<rparr>"

definition ok_response :: "string \<Rightarrow> 'j \<Rightarrow> 'j response" where
  "ok_response body doc = \<lparr>status_code = 200, content = body, json = Inr doc\<rparr>"

definition status_response :: "int \<Rightarrow> 'j response" where
  "status_response code =
     \<lparr>status_code = code, content = '''', json = Inl (RequestException ''JSONDecodeError'')\<rparr>"

definition bytes_response :: "string \<Rightarrow> unit response" where
  "bytes_response body =
     \<lparr>status_code = 200, content = body, json = Inl (RequestException ''JSONDecodeError'')\<rparr>"

definition catalog_net :: "champion list net" where
  "catalog_net url =
     (if url = SUMMARY_URL
      then Inr (ok_response ''[...]''
                  [\<lparr>champ_id = 238, champ_name = ''Zed''\<rparr>, \<lparr>champ_id = 103, champ_name = ''Ahri''\<rparr>])
      else Inr (status_response 404))"

definition detail_net :: "champion_detail net" where
  "detail_net url =
     (if url = detail_url 103 then Inr (ok_response ''{...}'' ahri_detail)
      else if url = detail_url 238 then Inr (ok_response ''{...}'' zed_detail)
      else Inr (status_response 404))"

definition offline_detail_net :: "champion_detail net" where
  "offline_detail_net url = Inl (RequestException ''ConnectTimeout'')"

definition offline_net :: "unit net" where
  "offline_net url = Inl (RequestException ''ConnectTimeout'')"

definition not_found_net :: "unit net" where
  "not_found_net url = Inr (status_response 404)"

definition asset_net :: "unit net" where
  "asset_net url = Inr (bytes_response ''JFIF'')"

definition faulty_net :: "unit net" where
  "faulty_net url = Inl (OtherException ''not a RequestException'')"

definition first_zip_net :: "unit net" where
  "first_zip_net url = Inr (bytes_response ''PK-first'')"

definition second_zip_net :: "unit net" where
  "second_zip_net url = Inr (bytes_response ''PK-second'')"

definition demo_pil :: pil where
  "demo_pil =
     \<lparr>pil_open = (\<lambda>bytes. Inr \<lparr>img_size = (1215, 717), img_pixels = bytes\<rparr>),
      pil_resample = (\<lambda>img sz. img_pixels img)\<rparr>"

definition demo_photo :: pil_image where
  "demo_photo = \<lparr>img_size = (512, 288), img_pixels = ''old''\<rparr>"

definition demo_truediv :: "string \<Rightarrow> string \<Rightarrow> string" where
  "demo_truediv dir file = dir @ ''/'' @ file"

definition empty_fs :: filesystem where
  "empty_fs = \<lparr>files = Map.empty, denied = {}\<rparr>"

text \<open>The window once the catalog thread has finished on \<^const>\<open>catalog_net\<close>.\<close>

definition loaded_app :: app where
  "loaded_app =
     populate_champions_task catalog_net
       (init_app\<lparr>threads := remove1 PopulateChampions (threads init_app)\<rparr>)"

text \<open>The same window with a photo on display.\<close>

definition showing_app :: app where
  "showing_app =
     loaded_app\<lparr>preview_label :=
       \<lparr>label_text = '''', label_image = Some demo_photo, image_ref = Some demo_photo\<rparr>\<rparr>"

text \<open>Ahri chosen and her detail loaded.\<close>

definition after_ahri :: "app option" where
  "after_ahri = finish_load detail_net 103 (select_champion ''Ahri'' loaded_app)"

definition ahri_app :: app where
  "ahri_app =
     load_champ_data detail_net 103
       (loaded_app\<lparr>var_champion := ''Ahri'',
                   var_status := ''Chargement des skins'' @ ellipsis,
                   threads := []\<rparr>)"

text \<open>Then Zed chosen, and the fetch of his detail times out.\<close>

definition after_zed_failed :: "app option" where
  "after_zed_failed =
     Option.bind after_ahri (\<lambda>st. finish_load offline_detail_net 238 (select_champion ''Zed'' st))"

text \<open>
  Ahri chosen, then Zed chosen while Ahri's fetch is still running; Zed's fetch finishes
  first and Ahri's after it.
\<close>

definition both_selected :: app where
  "both_selected = select_champion ''Zed'' (select_champion ''Ahri'' loaded_app)"

definition zed_then_ahri :: "app option" where
  "zed_then_ahri =
     Option.bind (finish_load detail_net 238 both_selected) (finish_load detail_net 103)"

definition ahri_then_zed :: "app option" where
  "ahri_then_zed =
     Option.bind (finish_load detail_net 103 both_selected) (finish_load detail_net 238)"

section \<open>Properties\<close>

subsection \<open>Evaluation of the example worlds\<close>

lemmas net_defs =
  catalog_net_def detail_net_def offline_detail_net_def offline_net_def not_found_net_def
  asset_net_def faulty_net_def first_zip_net_def second_zip_net_def
  ok_response_def status_response_def bytes_response_def

lemma str_int_103: "str_int 103 = ''103''"
  by code_simp

lemma str_int_238: "str_int 238 = ''238''"
  by code_simp

lemma detail_url_distinct: "detail_url 238 \<noteq> detail_url 103"
  by (simp add: detail_url_def str_int_103 str_int_238)

lemma loaded_app_eq:
  "loaded_app =
     init_app\<lparr>threads := [],
       champions := [\<lparr>champ_id = 103, champ_name = ''Ahri''\<rparr>, \<lparr>champ_id = 238, champ_name = ''Zed''\<rparr>],
       cmb_champion_values := [''Ahri'', ''Zed''],
       var_status := ''Choisissez un champion.''\<rparr>"
  by (simp add: loaded_app_def populate_champions_task_def get_champion_summary_def
      fetch_json_def requests_get_def raise_for_status_def net_defs init_app_def)

lemma loaded_app_reached: "finish_populate catalog_net init_app = Some loaded_app"
  by (simp add: finish_populate_def loaded_app_def init_app_def)

lemma get_detail_ahri: "get_champion_detail detail_net 103 = Inr ahri_detail"
  by (simp add: get_champion_detail_def fetch_json_def requests_get_def raise_for_status_def
      detail_net_def ok_response_def)

lemma get_detail_zed: "get_champion_detail detail_net 238 = Inr zed_detail"
  by (simp add: get_champion_detail_def fetch_json_def requests_get_def raise_for_status_def
      detail_net_def ok_response_def detail_url_distinct)

lemma get_detail_offline:
  "get_champion_detail offline_detail_net cid = Inl (RequestException ''ConnectTimeout'')"
  by (simp add: get_champion_detail_def fetch_json_def requests_get_def offline_detail_net_def)

subsection \<open>Resolving asset paths\<close>

lemma normalize_absolute:
  "startswith p ''http://'' \<or> startswith p ''https://'' \<Longrightarrow> normalize_cdragon_path (Some p) = p"
  by (auto simp: normalize_cdragon_path_def startswith_def)

lemma normalize_is_absolute:
  "p \<noteq> [] \<Longrightarrow> startswith (normalize_cdragon_path (Some p)) ''https://''
     \<or> startswith (normalize_cdragon_path (Some p)) ''http://''"
  by (auto simp: normalize_cdragon_path_def startswith_def Let_def CDN_BASE_def)

text \<open>
  C4, as the code has it. \<^verbatim>\<open>normalize_cdragon_path\<close> returns the empty string for an
  empty (or absent) path and returns an absolute URL (one starting with \<^verbatim>\<open>http://\<close> or
  \<^verbatim>\<open>https://\<close>) unchanged. For any other path it adds a slash only when the path does
  not start with one, and never removes one: a path without a leading slash, alone or
  with one slash put before it, gives the base, one slash and the path; a path that
  starts with a slash is appended to the base as it is, with every slash it has. The
  base does not end in a slash, so \<^verbatim>\<open>assets/foo.png\<close> and \<^verbatim>\<open>/assets/foo.png\<close> give the
  same URL, with one slash after the base.
\<close>

theorem normalize_cdragon_path_spec:
  "normalize_cdragon_path None = ''''
   \<and> normalize_cdragon_path (Some '''') = ''''
   \<and> (startswith p ''http://'' \<or> startswith p ''https://'' \<longrightarrow>
        normalize_cdragon_path (Some p) = p)
   \<and> (p \<noteq> '''' \<and> \<not> startswith p ''http://'' \<and> \<not> startswith p ''https://''
        \<and> \<not> startswith p ''/'' \<longrightarrow>
        normalize_cdragon_path (Some p) = CDN_BASE @ ''/'' @ p
        \<and> normalize_cdragon_path (Some (''/'' @ p)) = CDN_BASE @ ''/'' @ p)
   \<and> (startswith p ''/'' \<longrightarrow> normalize_cdragon_path (Some p) = CDN_BASE @ p)
   \<and> \<not> startswith (rev CDN_BASE) ''/''
   \<and> normalize_cdragon_path (Some ''assets/foo.png'')
        = normalize_cdragon_path (Some ''/assets/foo.png'')
   \<and> normalize_cdragon_path (Some ''/assets/foo.png'')
        = ''https://raw.communitydragon.org/latest/assets/foo.png''"
proof -
  have a: "normalize_cdragon_path None = ''''" "normalize_cdragon_path (Some '''') = ''''"
    by (simp_all add: normalize_cdragon_path_def)
  have b: "startswith p ''http://'' \<or> startswith p ''https://'' \<longrightarrow>
        normalize_cdragon_path (Some p) = p"
    using normalize_absolute by blast
  have c: "p \<noteq> '''' \<and> \<not> startswith p ''http://'' \<and> \<not> startswith p ''https://''
        \<and> \<not> startswith p ''/'' \<longrightarrow>
        normalize_cdragon_path (Some p) = CDN_BASE @ ''/'' @ p
        \<and> normalize_cdragon_path (Some (''/'' @ p)) = CDN_BASE @ ''/'' @ p"
    by (cases p) (auto simp: normalize_cdragon_path_def startswith_def Let_def)
  have d: "startswith p ''/'' \<longrightarrow> normalize_cdragon_path (Some p) = CDN_BASE @ p"
    by (cases p) (auto simp: normalize_cdragon_path_def startswith_def Let_def)
  have e: "\<not> startswith (rev CDN_BASE) ''/''"
    by (simp add: startswith_def CDN_BASE_def)
  have f: "normalize_cdragon_path (Some ''assets/foo.png'')
        = normalize_cdragon_path (Some ''/assets/foo.png'')"
    by (simp add: normalize_cdragon_path_def startswith_def)
  have g: "normalize_cdragon_path (Some ''/assets/foo.png'')
        = ''https://raw.communitydragon.org/latest/assets/foo.png''"
    by (simp add: normalize_cdragon_path_def startswith_def CDN_BASE_def)
  from a b c d e f g show ?thesis by blast
qed

theorem normalize_cdragon_path_spec_witness:
  "normalize_cdragon_path (Some ''https://cdn.example.org/zed_1.jpg'')
     = ''https://cdn.example.org/zed_1.jpg''
   \<and> normalize_cdragon_path (Some ''lol-game-data/assets/ahri_1.jpg'')
     = CDN_BASE @ ''/'' @ ''lol-game-data/assets/ahri_1.jpg''
   \<and> normalize_cdragon_path (Some (''/'' @ ''lol-game-data/assets/ahri_1.jpg''))
     = CDN_BASE @ ''/'' @ ''lol-game-data/assets/ahri_1.jpg''
   \<and> normalize_cdragon_path (Some ''//lol-game-data/assets/ahri_1.jpg'')
     = CDN_BASE @ ''//lol-game-data/assets/ahri_1.jpg''"
  using normalize_cdragon_path_spec [of "''https://cdn.example.org/zed_1.jpg''"]
    normalize_cdragon_path_spec [of "''lol-game-data/assets/ahri_1.jpg''"]
    normalize_cdragon_path_spec [of "''//lol-game-data/assets/ahri_1.jpg''"]
  by (simp add: startswith_def)

text \<open>
  C4, as the claim has it, fails. For a path that starts with two slashes the base and
  the first segment of the path are separated by two slashes, not by exactly one, and
  the URL differs from the one of the same path with a single leading slash.
\<close>

theorem normalize_cdragon_path_two_slashes:
  "normalize_cdragon_path (Some ''//a'') = ''https://raw.communitydragon.org/latest//a''
   \<and> normalize_cdragon_path (Some ''/a'') = ''https://raw.communitydragon.org/latest/a''
   \<and> normalize_cdragon_path (Some ''//a'') \<noteq> normalize_cdragon_path (Some ''/a'')"
  by (simp add: normalize_cdragon_path_def startswith_def CDN_BASE_def)

text \<open>
  C9. On an input that is already an absolute URL, applying \<^verbatim>\<open>normalize_cdragon_path\<close>
  to its own result gives that result again.
\<close>

theorem normalize_cdragon_path_idempotent:
  assumes "startswith x ''http://'' \<or> startswith x ''https://''"
  shows "normalize_cdragon_path (Some (normalize_cdragon_path (Some x)))
           = normalize_cdragon_path (Some x)"
  using assms by (simp add: normalize_absolute)

theorem normalize_cdragon_path_idempotent_witness:
  "(startswith ''http://cdn.example.org/a.png'' ''http://''
      \<or> startswith ''http://cdn.example.org/a.png'' ''https://'')
   \<and> normalize_cdragon_path (Some (normalize_cdragon_path (Some ''http://cdn.example.org/a.png'')))
       = normalize_cdragon_path (Some ''http://cdn.example.org/a.png'')"
proof -
  have h: "startswith ''http://cdn.example.org/a.png'' ''http://''
      \<or> startswith ''http://cdn.example.org/a.png'' ''https://''"
    by (simp add: startswith_def)
  from h normalize_cdragon_path_idempotent [OF h] show ?thesis by simp
qed

subsection \<open>Probing a URL\<close>

lemma check_url_exists_response:
  "net url = Inr r \<Longrightarrow> check_url_exists net url = Inr (status_code r = 200)"
  by (simp add: check_url_exists_def requests_get_def)

lemma check_url_exists_caught:
  "net url = Inl e \<Longrightarrow> is_RequestException e \<Longrightarrow> check_url_exists net url = Inr False"
  by (simp add: check_url_exists_def requests_get_def)

lemma check_url_exists_uncaught:
  "net url = Inl e \<Longrightarrow> \<not> is_RequestException e \<Longrightarrow> check_url_exists net url = Inl e"
  by (simp add: check_url_exists_def requests_get_def)

text \<open>
  C5, as the code has it. \<^verbatim>\<open>check_url_exists\<close> returns true exactly when the GET
  completes with status 200; it returns false on every other status and on every
  exception of the class \<^verbatim>\<open>RequestException\<close> (connection error, timeout); the only
  exceptions that leave it are those \<^verbatim>\<open>requests.get\<close> raises outside that class.
\<close>

theorem check_url_exists_spec:
  "(check_url_exists net url = Inr True
      \<longleftrightarrow> (\<exists>r. requests_get net url = Inr r \<and> status_code r = 200))
   \<and> (\<forall>r. requests_get net url = Inr r \<and> status_code r \<noteq> 200 \<longrightarrow>
         check_url_exists net url = Inr False)
   \<and> (\<forall>e. requests_get net url = Inl e \<and> is_RequestException e \<longrightarrow>
         check_url_exists net url = Inr False)
   \<and> (\<forall>e. check_url_exists net url = Inl e \<longleftrightarrow>
         requests_get net url = Inl e \<and> \<not> is_RequestException e)"
  by (cases "net url") (auto simp: check_url_exists_def requests_get_def)

theorem check_url_exists_spec_witness:
  "check_url_exists asset_net ''https://cdn.example.org/zed_1.jpg'' = Inr True
   \<and> check_url_exists not_found_net ''https://cdn.example.org/zed_1.jpg'' = Inr False
   \<and> check_url_exists offline_net ''https://cdn.example.org/zed_1.jpg'' = Inr False"
  using check_url_exists_spec [of asset_net "''https://cdn.example.org/zed_1.jpg''"]
    check_url_exists_spec [of not_found_net "''https://cdn.example.org/zed_1.jpg''"]
    check_url_exists_spec [of offline_net "''https://cdn.example.org/zed_1.jpg''"]
  by (simp add: requests_get_def net_defs)

text \<open>
  C5, as the claim has it, fails: when \<^verbatim>\<open>requests.get\<close> raises an exception that is not
  a \<^verbatim>\<open>RequestException\<close>, the \<^verbatim>\<open>except\<close> clause does not apply and the exception
  leaves \<^verbatim>\<open>check_url_exists\<close>.
\<close>

theorem check_url_exists_raises:
  "check_url_exists faulty_net ''https://cdn.example.org/zed_1.jpg''
     = Inl (OtherException ''not a RequestException'')"
  by (simp add: check_url_exists_def requests_get_def faulty_net_def)

subsection \<open>Downloading an archive\<close>

lemma download_zip_Inr:
  assumes "download_zip truediv net champion zip_name target_dir fs = Inr (p, fs')"
  shows "\<exists>r. requests_get net (GITHUB_ZIP_BASE @ champion @ ''/'' @ zip_name) = Inr r
           \<and> p = truediv target_dir zip_name
           \<and> fs' = fs\<lparr>files := (files fs)(p \<mapsto> content r)\<rparr>"
  using assms
  by (auto simp: download_zip_def Let_def split: sum.splits if_splits)

lemma download_zip_returns:
  assumes "requests_get net (GITHUB_ZIP_BASE @ champion @ ''/'' @ zip_name) = Inr r"
      and "\<not> (400 \<le> status_code r \<and> status_code r < 600)"
      and "truediv target_dir zip_name \<notin> denied fs"
  shows "download_zip truediv net champion zip_name target_dir fs
           = Inr (truediv target_dir zip_name,
                  fs\<lparr>files := (files fs)(truediv target_dir zip_name \<mapsto> content r)\<rparr>)"
  using assms by (simp add: download_zip_def Let_def raise_for_status_def)

lemma download_zip_raises_http:
  assumes "requests_get net (GITHUB_ZIP_BASE @ champion @ ''/'' @ zip_name) = Inr r"
      and "400 \<le> status_code r \<and> status_code r < 600"
  shows "download_zip truediv net champion zip_name target_dir fs
           = Inl (RequestException ''HTTPError'')"
  using assms by (simp add: download_zip_def Let_def raise_for_status_def)

lemma download_zip_same_path:
  assumes "download_zip truediv net1 champion zip_name target_dir fs = Inr (p1, fs1)"
      and "download_zip truediv net2 champion zip_name target_dir fs' = Inr (p2, fs2)"
  shows "p1 = p2"
  using download_zip_Inr [OF assms(1)] download_zip_Inr [OF assms(2)] by blast

text \<open>
  C6. Let \<^verbatim>\<open>download_zip\<close> be called twice with the same champion, file name and
  target directory, let the GET of each call complete with a status that
  \<^verbatim>\<open>raise_for_status\<close> accepts (not 4xx or 5xx), and let the destination be a path that
  can be opened for writing. Then both calls return, and return the same path,
  \<^verbatim>\<open>target_dir / zip_name\<close>; the first call leaves the first response's body in the file
  at that path, whatever was there before, and the second call replaces it by the body
  of the second response and changes no other file.
\<close>

theorem download_zip_twice:
  assumes "requests_get net1 (GITHUB_ZIP_BASE @ champion @ ''/'' @ zip_name) = Inr r1"
      and "\<not> (400 \<le> status_code r1 \<and> status_code r1 < 600)"
      and "requests_get net2 (GITHUB_ZIP_BASE @ champion @ ''/'' @ zip_name) = Inr r2"
      and "\<not> (400 \<le> status_code r2 \<and> status_code r2 < 600)"
      and "truediv target_dir zip_name \<notin> denied fs"
  shows "\<exists>fs1 fs2.
           download_zip truediv net1 champion zip_name target_dir fs
             = Inr (truediv target_dir zip_name, fs1)
         \<and> download_zip truediv net2 champion zip_name target_dir fs1
             = Inr (truediv target_dir zip_name, fs2)
         \<and> files fs1 (truediv target_dir zip_name) = Some (content r1)
         \<and> files fs2 (truediv target_dir zip_name) = Some (content r2)
         \<and> fs2 = fs\<lparr>files := (files fs)(truediv target_dir zip_name \<mapsto> content r2)\<rparr>"
proof -
  let ?p = "truediv target_dir zip_name"
  let ?fs1 = "fs\<lparr>files := (files fs)(?p \<mapsto> content r1)\<rparr>"
  let ?fs2 = "?fs1\<lparr>files := (files ?fs1)(?p \<mapsto> content r2)\<rparr>"
  have one: "download_zip truediv net1 champion zip_name target_dir fs = Inr (?p, ?fs1)"
    by (rule download_zip_returns [where truediv = truediv and target_dir = target_dir, OF assms(1,2,5)])
  have "?p \<notin> denied ?fs1" using assms(5) by simp
  from download_zip_returns [where truediv = truediv and target_dir = target_dir, OF assms(3,4) this]
  have two: "download_zip truediv net2 champion zip_name target_dir ?fs1 = Inr (?p, ?fs2)" .
  have c1: "files ?fs1 ?p = Some (content r1)" by simp
  have c2: "files ?fs2 ?p = Some (content r2)" by simp
  have c3: "?fs2 = fs\<lparr>files := (files fs)(?p \<mapsto> content r2)\<rparr>" by simp
  from one two c1 c2 c3 show ?thesis by blast
qed

theorem download_zip_twice_witness:
  "\<exists>fs1 fs2.
     download_zip demo_truediv first_zip_net ''Ahri'' ''Dynasty Ahri.zip'' ''skin-cache'' empty_fs
       = Inr (''skin-cache/Dynasty Ahri.zip'', fs1)
   \<and> download_zip demo_truediv second_zip_net ''Ahri'' ''Dynasty Ahri.zip'' ''skin-cache'' fs1
       = Inr (''skin-cache/Dynasty Ahri.zip'', fs2)
   \<and> files fs1 ''skin-cache/Dynasty Ahri.zip'' = Some ''PK-first''
   \<and> files fs2 ''skin-cache/Dynasty Ahri.zip'' = Some ''PK-second''"
proof -
  have g1: "requests_get first_zip_net (GITHUB_ZIP_BASE @ ''Ahri'' @ ''/'' @ ''Dynasty Ahri.zip'')
              = Inr (bytes_response ''PK-first'')"
    by (simp add: requests_get_def first_zip_net_def)
  have g2: "requests_get second_zip_net (GITHUB_ZIP_BASE @ ''Ahri'' @ ''/'' @ ''Dynasty Ahri.zip'')
              = Inr (bytes_response ''PK-second'')"
    by (simp add: requests_get_def second_zip_net_def)
  have s1: "\<not> (400 \<le> status_code (bytes_response ''PK-first'')
               \<and> status_code (bytes_response ''PK-first'') < 600)"
    by (simp add: bytes_response_def)
  have s2: "\<not> (400 \<le> status_code (bytes_response ''PK-second'')
               \<and> status_code (bytes_response ''PK-second'') < 600)"
    by (simp add: bytes_response_def)
  have w: "demo_truediv ''skin-cache'' ''Dynasty Ahri.zip'' \<notin> denied empty_fs"
    by (simp add: empty_fs_def)
  have p: "demo_truediv ''skin-cache'' ''Dynasty Ahri.zip'' = ''skin-cache/Dynasty Ahri.zip''"
    by (simp add: demo_truediv_def)
  have c: "content (bytes_response ''PK-first'') = ''PK-first''"
          "content (bytes_response ''PK-second'') = ''PK-second''"
    by (simp_all add: bytes_response_def)
  from download_zip_twice
         [where truediv = demo_truediv and target_dir = "''skin-cache''", OF g1 s1 g2 s2 w]
  show ?thesis unfolding p c by blast
qed

subsection \<open>The preview\<close>

lemma load_global_Image: "load_global ''Image'' = Inl (NameError ''Image'')"
  by (simp add: load_global_def module_globals_def)

lemma fetch_photo_raises: "\<exists>e. fetch_photo lib net url = Inl e"
  by (simp add: fetch_photo_def load_global_Image split: sum.splits)

lemma fetch_photo_after_download:
  "requests_get net url = Inr r \<Longrightarrow> raise_for_status r = Inr () \<Longrightarrow>
   fetch_photo lib net url = Inl (NameError ''Image'')"
  by (simp add: fetch_photo_def load_global_Image)

lemma show_image_task_keeps_image:
  "label_image (show_image_task lib net url lbl) = label_image lbl
   \<and> image_ref (show_image_task lib net url lbl) = image_ref lbl
   \<and> (\<exists>e. label_text (show_image_task lib net url lbl) = OVERLAY_PREFIX @ str_exn e)"
proof -
  obtain e where "fetch_photo lib net url = Inl e"
    using fetch_photo_raises by blast
  then show ?thesis by (auto simp: show_image_task_def)
qed

text \<open>
  C2. When \<^verbatim>\<open>_show_image_async\<close> is called with no path, with the empty path, or with
  a path whose URL \<^verbatim>\<open>check_url_exists\<close> reports as missing, it sets the text of the
  preview label to the placeholder and changes nothing else: the image on display and
  the reference to it stay as they were, no thread is started and no exception is raised.
\<close>

theorem show_image_async_no_asset:
  assumes "path = None \<or> path = Some ''''
         \<or> check_url_exists net (normalize_cdragon_path path) = Inr False"
  shows "show_image_async net path st
           = (None, st\<lparr>preview_label := (preview_label st)\<lparr>label_text := PLACEHOLDER\<rparr>\<rparr>)
       \<and> label_text (preview_label (snd (show_image_async net path st))) = PLACEHOLDER
       \<and> label_image (preview_label (snd (show_image_async net path st)))
           = label_image (preview_label st)
       \<and> image_ref (preview_label (snd (show_image_async net path st)))
           = image_ref (preview_label st)
       \<and> threads (snd (show_image_async net path st)) = threads st"
proof -
  have "show_image_async net path st
           = (None, st\<lparr>preview_label := (preview_label st)\<lparr>label_text := PLACEHOLDER\<rparr>\<rparr>)"
    using assms
    by (auto simp: show_image_async_def Let_def normalize_cdragon_path_def)
  then show ?thesis by simp
qed

theorem show_image_async_no_asset_witness:
  "show_image_async not_found_net (Some ''/lol-game-data/assets/ahri_1.jpg'') showing_app
     = (None, showing_app\<lparr>preview_label :=
          \<lparr>label_text = PLACEHOLDER, label_image = Some demo_photo, image_ref = Some demo_photo\<rparr>\<rparr>)
   \<and> label_image (preview_label (snd (show_image_async asset_net None showing_app)))
     = Some demo_photo
   \<and> label_text (preview_label (snd (show_image_async asset_net None showing_app)))
     = PLACEHOLDER"
proof -
  have h1: "check_url_exists not_found_net
              (normalize_cdragon_path (Some ''/lol-game-data/assets/ahri_1.jpg'')) = Inr False"
    by (simp add: check_url_exists_def requests_get_def not_found_net_def status_response_def)
  have lbl: "preview_label showing_app
      = \<lparr>label_text = '''', label_image = Some demo_photo, image_ref = Some demo_photo\<rparr>"
    by (simp add: showing_app_def)
  show ?thesis
    using show_image_async_no_asset
            [of "Some ''/lol-game-data/assets/ahri_1.jpg''" not_found_net showing_app]
          show_image_async_no_asset [of None asset_net showing_app] h1
    by (simp add: lbl)
qed

text \<open>
  C3 does not hold of the code. The module never imports \<^verbatim>\<open>Image\<close> or \<^verbatim>\<open>ImageTk\<close>,
  so once the bytes are downloaded the body of the thread raises \<^verbatim>\<open>NameError\<close> at
  \<^verbatim>\<open>Image.open\<close>: no image is decoded, resized or displayed, the \<^verbatim>\<open>except\<close> branch
  writes the overlay text, and the label keeps the image it had. Here the URL exists,
  the download succeeds and the library would decode the bytes.
\<close>

theorem show_image_task_name_error:
  "show_image_task demo_pil asset_net ''https://cdn.example.org/zed_1.jpg''
       \<lparr>label_text = '''', label_image = None, image_ref = None\<rparr>
     = \<lparr>label_text = OVERLAY_PREFIX @ ''name '' @ apostrophe @ ''Image'' @ apostrophe @ '' is not defined'',
        label_image = None, image_ref = None\<rparr>"
  by (simp add: show_image_task_def fetch_photo_def requests_get_def raise_for_status_def
      asset_net_def bytes_response_def load_global_Image apostrophe_def)

subsection \<open>Choosing a champion\<close>

lemma get_isBase_iff: "get_isBase s \<longleftrightarrow> isBase s = Some True"
  by (simp add: get_isBase_def split: option.splits)

lemma select_champion_found:
  assumes "find (\<lambda>c. champ_name c = name) (champions st) = Some champ" and "name \<noteq> []"
  shows "select_champion name st
           = st\<lparr>var_champion := name,
                var_status := ''Chargement des skins'' @ ellipsis,
                threads := threads st @ [LoadChampData (champ_id champ)]\<rparr>"
  using assms by (simp add: select_champion_def on_champion_selected_def Let_def)

lemma select_champion_frame:
  "champions (select_champion name st) = champions st
   \<and> cmb_skin_values (select_champion name st) = cmb_skin_values st
   \<and> current_champion_data (select_champion name st) = current_champion_data st
   \<and> var_champion (select_champion name st) = name"
  by (simp add: select_champion_def on_champion_selected_def Let_def split: option.splits)

lemma load_champ_data_success:
  assumes "get_champion_detail net cid = Inr data"
  shows "load_champ_data net cid st
           = st\<lparr>current_champion_data := Some data,
                cmb_skin_values := map skin_name (filter (\<lambda>s. isBase s \<noteq> Some True) (skins data)),
                var_skin := '''',
                cmb_chroma_values := [],
                var_chroma := '''',
                var_status := ''S'' @ e_acute @ ''lectionnez un skin.''\<rparr>"
  using assms by (simp add: load_champ_data_def Let_def get_isBase_iff)

lemma load_champ_data_failure:
  assumes "get_champion_detail net cid = Inl e"
  shows "load_champ_data net cid st
           = st\<lparr>var_status := ''Erreur chargement skins : '' @ str_exn e\<rparr>"
  using assms by (simp add: load_champ_data_def)

lemma load_champ_data_threads: "threads (load_champ_data net cid st) = threads st"
  by (simp add: load_champ_data_def Let_def split: sum.splits)

lemma finish_load_started:
  assumes "LoadChampData cid \<in> set (threads st)"
  shows "finish_load net cid st
           = Some (load_champ_data net cid (st\<lparr>threads := remove1 (LoadChampData cid) (threads st)\<rparr>))"
  using assms by (simp add: finish_load_def)

lemma finish_load_Some:
  assumes "finish_load net cid st = Some st'"
  shows "st' = load_champ_data net cid (st\<lparr>threads := remove1 (LoadChampData cid) (threads st)\<rparr>)"
  using assms by (simp add: finish_load_def split: if_splits)

lemma find_in_catalog:
  assumes "name \<in> champ_name ` set cs"
  shows "\<exists>champ. find (\<lambda>c. champ_name c = name) cs = Some champ \<and> champ_name champ = name"
proof (cases "find (\<lambda>c. champ_name c = name) cs")
  case None
  then show ?thesis using assms by (auto simp: find_None_iff)
next
  case (Some champ)
  then show ?thesis by (auto simp: find_Some_iff)
qed

text \<open>
  C1. Let \<open>name\<close> be the name of a champion of the loaded catalog, and \<open>champ\<close> the
  first entry of that name, the one the handler looks up. Choosing \<open>name\<close> starts one
  thread, \<^verbatim>\<open>_load_champ_data\<close> with the id of \<open>champ\<close>, and that thread can finish
  (the handler starts nothing for the empty string, which is the value of the variable when
  nothing is chosen). Whenever the thread finishes with a fetched detail, in whatever state
  the window then is, the values of the skin selector become the names of the detail's
  skins without those whose \<^verbatim>\<open>isBase\<close> is true, in the detail's order.
\<close>

theorem select_champion_skin_list:
  assumes "name \<in> champ_name ` set (champions st)"
  shows "\<exists>champ. find (\<lambda>c. champ_name c = name) (champions st) = Some champ
          \<and> champ_name champ = name
          \<and> (name \<noteq> [] \<longrightarrow>
               threads (select_champion name st) = threads st @ [LoadChampData (champ_id champ)]
               \<and> (\<exists>st'. finish_load net (champ_id champ) (select_champion name st) = Some st'))
          \<and> (\<forall>data st2 st'.
               get_champion_detail net (champ_id champ) = Inr data
               \<and> finish_load net (champ_id champ) st2 = Some st' \<longrightarrow>
               cmb_skin_values st'
                 = map skin_name (filter (\<lambda>s. isBase s \<noteq> Some True) (skins data)))"
proof -
  from find_in_catalog [OF assms] obtain champ where
    f: "find (\<lambda>c. champ_name c = name) (champions st) = Some champ"
    and n: "champ_name champ = name"
    by blast
  have a: "name \<noteq> [] \<longrightarrow>
             threads (select_champion name st) = threads st @ [LoadChampData (champ_id champ)]
             \<and> (\<exists>st'. finish_load net (champ_id champ) (select_champion name st) = Some st')"
  proof
    assume ne: "name \<noteq> []"
    have t: "threads (select_champion name st) = threads st @ [LoadChampData (champ_id champ)]"
      by (simp add: select_champion_found [OF f ne])
    then have "LoadChampData (champ_id champ) \<in> set (threads (select_champion name st))"
      by simp
    from finish_load_started [OF this] t
    show "threads (select_champion name st) = threads st @ [LoadChampData (champ_id champ)]
          \<and> (\<exists>st'. finish_load net (champ_id champ) (select_champion name st) = Some st')"
      by blast
  qed
  have b: "\<forall>data st2 st'.
             get_champion_detail net (champ_id champ) = Inr data
             \<and> finish_load net (champ_id champ) st2 = Some st' \<longrightarrow>
             cmb_skin_values st'
               = map skin_name (filter (\<lambda>s. isBase s \<noteq> Some True) (skins data))"
  proof (intro allI impI, elim conjE)
    fix data st2 st'
    assume d: "get_champion_detail net (champ_id champ) = Inr data"
      and fl: "finish_load net (champ_id champ) st2 = Some st'"
    show "cmb_skin_values st'
            = map skin_name (filter (\<lambda>s. isBase s \<noteq> Some True) (skins data))"
      by (simp add: finish_load_Some [OF fl] load_champ_data_success [OF d])
  qed
  from f n a b show ?thesis by blast
qed

lemma loaded_champions:
  "champions loaded_app
     = [\<lparr>champ_id = 103, champ_name = ''Ahri''\<rparr>, \<lparr>champ_id = 238, champ_name = ''Zed''\<rparr>]"
  by (simp add: loaded_app_eq)

lemma loaded_threads: "threads loaded_app = []"
  by (simp add: loaded_app_eq)

lemma loaded_skin_values: "cmb_skin_values loaded_app = []"
  by (simp add: loaded_app_eq init_app_def)

lemma ahri_skin_names:
  "map skin_name (filter (\<lambda>s. isBase s \<noteq> Some True) (skins ahri_detail))
     = [''Dynasty Ahri'', ''Midnight Ahri'']"
  by (simp add: ahri_detail_def)

lemma zed_skin_names:
  "map skin_name (filter (\<lambda>s. isBase s \<noteq> Some True) (skins zed_detail)) = [''Shockblade Zed'']"
  by (simp add: zed_detail_def)

lemma after_ahri_eq:
  "after_ahri
     = Some (load_champ_data detail_net 103
              (loaded_app\<lparr>var_champion := ''Ahri'',
                          var_status := ''Chargement des skins'' @ ellipsis,
                          threads := []\<rparr>))"
  by (simp add: after_ahri_def finish_load_def select_champion_def on_champion_selected_def
      Let_def loaded_champions loaded_threads)

theorem select_champion_skin_list_witness:
  "map_option cmb_skin_values after_ahri = Some [''Dynasty Ahri'', ''Midnight Ahri'']
   \<and> threads (select_champion ''Ahri'' loaded_app) = [LoadChampData 103]"
proof -
  have h: "''Ahri'' \<in> champ_name ` set (champions loaded_app)"
    by (simp add: loaded_champions)
  have f: "find (\<lambda>c. champ_name c = ''Ahri'') (champions loaded_app)
             = Some \<lparr>champ_id = 103, champ_name = ''Ahri''\<rparr>"
    by (simp add: loaded_champions)
  from select_champion_skin_list [OF h, of detail_net] f
  have t: "threads (select_champion ''Ahri'' loaded_app) = threads loaded_app @ [LoadChampData 103]"
    and "\<exists>st'. finish_load detail_net 103 (select_champion ''Ahri'' loaded_app) = Some st'"
    and all: "\<forall>data st2 st'.
               get_champion_detail detail_net 103 = Inr data
               \<and> finish_load detail_net 103 st2 = Some st' \<longrightarrow>
               cmb_skin_values st'
                 = map skin_name (filter (\<lambda>s. isBase s \<noteq> Some True) (skins data))"
    by auto
  then obtain st' where
    s: "finish_load detail_net 103 (select_champion ''Ahri'' loaded_app) = Some st'"
    by blast
  from all get_detail_ahri s
  have "cmb_skin_values st'
          = map skin_name (filter (\<lambda>s. isBase s \<noteq> Some True) (skins ahri_detail))"
    by blast
  then show ?thesis
    using s t by (simp add: after_ahri_def ahri_skin_names loaded_threads)
qed

text \<open>
  C7, as the code has it. When the fetch of a champion's detail fails, the finished
  thread writes the error message to the status line and changes nothing else: the skin
  selector keeps the values it had. Choosing the champion does not touch them either. So
  after a failed fetch the skin list is the one from before the choice; it is empty only
  if it was empty then.
\<close>

theorem load_failure_keeps_skin_list:
  assumes "find (\<lambda>c. champ_name c = name) (champions st) = Some champ"
      and "name \<noteq> []"
      and "get_champion_detail net (champ_id champ) = Inl e"
  shows "\<exists>st'. finish_load net (champ_id champ) (select_champion name st) = Some st'
          \<and> var_status st' = ''Erreur chargement skins : '' @ str_exn e
          \<and> cmb_skin_values st' = cmb_skin_values st
          \<and> current_champion_data st' = current_champion_data st"
proof -
  have sel: "select_champion name st
           = st\<lparr>var_champion := name,
                var_status := ''Chargement des skins'' @ ellipsis,
                threads := threads st @ [LoadChampData (champ_id champ)]\<rparr>"
    by (rule select_champion_found [OF assms(1,2)])
  then have "LoadChampData (champ_id champ) \<in> set (threads (select_champion name st))"
    by simp
  from finish_load_started [OF this, of net]
  show ?thesis
    by (simp add: load_champ_data_failure [OF assms(3)] sel)
qed

theorem load_failure_keeps_skin_list_witness:
  "map_option var_status (finish_load offline_detail_net 238 (select_champion ''Zed'' loaded_app))
     = Some ''Erreur chargement skins : ConnectTimeout''
   \<and> map_option cmb_skin_values
       (finish_load offline_detail_net 238 (select_champion ''Zed'' loaded_app)) = Some []"
proof -
  have f: "find (\<lambda>c. champ_name c = ''Zed'') (champions loaded_app)
             = Some \<lparr>champ_id = 238, champ_name = ''Zed''\<rparr>"
    by (simp add: loaded_champions)
  have n: "''Zed'' \<noteq> []" by simp
  have g: "get_champion_detail offline_detail_net (champ_id \<lparr>champ_id = 238, champ_name = ''Zed''\<rparr>)
             = Inl (RequestException ''ConnectTimeout'')"
    by (simp add: get_detail_offline)
  from load_failure_keeps_skin_list [OF f n g]
  show ?thesis by (auto simp: loaded_skin_values)
qed

text \<open>
  C7, as the claim has it, fails. Ahri is chosen and her detail loads; then Zed is chosen
  and the fetch of his detail times out. The status line shows the error, and the skin
  list is not empty: it still holds Ahri's skins.
\<close>

theorem failed_load_leaves_old_skins:
  "map_option cmb_skin_values after_zed_failed = Some [''Dynasty Ahri'', ''Midnight Ahri'']
   \<and> map_option var_status after_zed_failed = Some ''Erreur chargement skins : ConnectTimeout''
   \<and> map_option var_champion after_zed_failed = Some ''Zed''"
  by (simp add: after_zed_failed_def after_ahri_eq load_champ_data_success [OF get_detail_ahri]
      ahri_skin_names finish_load_def select_champion_def on_champion_selected_def Let_def
      loaded_champions loaded_threads load_champ_data_failure [OF get_detail_offline])

subsection \<open>Choosing a skin\<close>

lemma select_skin_found:
  assumes "current_champion_data st = Some data"
      and "find (\<lambda>s. skin_name s = name) (skins data) = Some sk"
      and "name \<noteq> []"
      and "chromas sk = None \<or> chromas sk = Some []"
  shows "select_skin net name st
           = show_image_async net (splashPath sk)
               (st\<lparr>var_skin := name, cmb_chroma_values := [em_dash], var_chroma := em_dash\<rparr>)"
  using assms by (auto simp: select_skin_def on_skin_selected_def Let_def)

lemma show_image_async_frame:
  "cmb_chroma_values (snd (show_image_async net path st)) = cmb_chroma_values st
   \<and> var_chroma (snd (show_image_async net path st)) = var_chroma st
   \<and> (threads (snd (show_image_async net path st)) = threads st
        \<or> threads (snd (show_image_async net path st))
            = threads st @ [ShowImage (normalize_cdragon_path path)])"
  by (simp add: show_image_async_def Let_def split: sum.splits)

text \<open>
  C8. Let the skin that \<^verbatim>\<open>on_skin_selected\<close> looks up for the chosen name (a name that
  is not the empty string, the value of the variable when nothing is chosen) have no
  chromas: the key is absent or its list is empty. Then the handler sets the values of
  the chroma selector to the one entry \<^const>\<open>em_dash\<close>, sets the chroma variable
  to it, and calls \<^verbatim>\<open>_show_image_async\<close> once, on the skin's own \<^verbatim>\<open>splashPath\<close>: the only
  thread it can start is the preview of that path.
\<close>

theorem select_skin_no_chromas:
  assumes "current_champion_data st = Some data"
      and "find (\<lambda>s. skin_name s = name) (skins data) = Some sk"
      and "name \<noteq> []"
      and "chromas sk = None \<or> chromas sk = Some []"
  shows "select_skin net name st
           = show_image_async net (splashPath sk)
               (st\<lparr>var_skin := name, cmb_chroma_values := [em_dash], var_chroma := em_dash\<rparr>)
       \<and> cmb_chroma_values (snd (select_skin net name st)) = [em_dash]
       \<and> var_chroma (snd (select_skin net name st)) = em_dash
       \<and> (threads (snd (select_skin net name st)) = threads st
            \<or> threads (snd (select_skin net name st))
                = threads st @ [ShowImage (normalize_cdragon_path (splashPath sk))])"
proof -
  let ?st1 = "st\<lparr>var_skin := name, cmb_chroma_values := [em_dash], var_chroma := em_dash\<rparr>"
  have eq: "select_skin net name st = show_image_async net (splashPath sk) ?st1"
    by (rule select_skin_found [OF assms])
  from show_image_async_frame [of net "splashPath sk" ?st1] eq
  show ?thesis by simp
qed

lemma after_ahri_app: "after_ahri = Some ahri_app"
  by (simp add: after_ahri_def ahri_app_def finish_load_def select_champion_def
      on_champion_selected_def Let_def loaded_champions loaded_threads)

lemma ahri_app_data: "current_champion_data ahri_app = Some ahri_detail"
  by (simp add: ahri_app_def load_champ_data_success [OF get_detail_ahri])

lemma ahri_app_threads: "threads ahri_app = []"
  by (simp add: ahri_app_def load_champ_data_threads)

theorem select_skin_no_chromas_witness:
  "cmb_chroma_values (snd (select_skin asset_net ''Dynasty Ahri'' ahri_app)) = [em_dash]
   \<and> var_chroma (snd (select_skin asset_net ''Dynasty Ahri'' ahri_app)) = em_dash
   \<and> threads (snd (select_skin asset_net ''Dynasty Ahri'' ahri_app))
       = [ShowImage ''https://raw.communitydragon.org/latest/lol-game-data/assets/ahri_1.jpg'']"
proof -
  let ?sk = "\<lparr>skin_name = ''Dynasty Ahri'', isBase = Some False,
              splashPath = Some ''/lol-game-data/assets/ahri_1.jpg'', chromas = Some []\<rparr>"
  have f: "find (\<lambda>s. skin_name s = ''Dynasty Ahri'') (skins ahri_detail) = Some ?sk"
    by (simp add: ahri_detail_def)
  have n: "''Dynasty Ahri'' \<noteq> []" by simp
  have c: "chromas ?sk = None \<or> chromas ?sk = Some []" by simp
  have u: "normalize_cdragon_path (Some ''/lol-game-data/assets/ahri_1.jpg'')
             = ''https://raw.communitydragon.org/latest/lol-game-data/assets/ahri_1.jpg''"
    by (simp add: normalize_cdragon_path_def startswith_def CDN_BASE_def)
  have e: "check_url_exists asset_net
             ''https://raw.communitydragon.org/latest/lol-game-data/assets/ahri_1.jpg'' = Inr True"
    by (simp add: check_url_exists_def requests_get_def asset_net_def bytes_response_def)
  from select_skin_no_chromas [OF ahri_app_data f n c, of asset_net]
  have eq: "select_skin asset_net ''Dynasty Ahri'' ahri_app
      = show_image_async asset_net (Some ''/lol-game-data/assets/ahri_1.jpg'')
          (ahri_app\<lparr>var_skin := ''Dynasty Ahri'', cmb_chroma_values := [em_dash],
                     var_chroma := em_dash\<rparr>)"
    by simp
  show ?thesis
    by (simp add: eq show_image_async_def Let_def u e ahri_app_threads)
qed

subsection \<open>Two fetches in flight\<close>

lemma second_still_started: "y \<in> set (remove1 x (ts @ [x, y]))"
  by (cases "x = y") (auto simp: remove1_append)

lemma first_still_started: "x \<in> set (remove1 y (ts @ [x, y]))"
  by (cases "x = y") (auto simp: remove1_append)

lemma select_two:
  assumes "find (\<lambda>c. champ_name c = a) (champions st) = Some ca"
      and "find (\<lambda>c. champ_name c = b) (champions st) = Some cb"
      and "a \<noteq> []" and "b \<noteq> []"
  shows "select_champion b (select_champion a st)
           = st\<lparr>var_champion := b,
                var_status := ''Chargement des skins'' @ ellipsis,
                threads := threads st @ [LoadChampData (champ_id ca), LoadChampData (champ_id cb)]\<rparr>"
proof -
  have s1: "select_champion a st
           = st\<lparr>var_champion := a,
                var_status := ''Chargement des skins'' @ ellipsis,
                threads := threads st @ [LoadChampData (champ_id ca)]\<rparr>"
    by (rule select_champion_found [OF assms(1,3)])
  have "find (\<lambda>c. champ_name c = b) (champions (select_champion a st)) = Some cb"
    using assms(2) by (simp add: s1)
  from select_champion_found [OF this assms(4)] show ?thesis
    by (simp add: s1)
qed

lemma finish_two:
  assumes "threads st = ts @ [LoadChampData x, LoadChampData y] \<or>
           threads st = ts @ [LoadChampData y, LoadChampData x]"
      and "get_champion_detail net_y y = Inr data"
  shows "\<exists>s. Option.bind (finish_load net_x x st) (finish_load net_y y) = Some s
           \<and> cmb_skin_values s = map skin_name (filter (\<lambda>s. isBase s \<noteq> Some True) (skins data))
           \<and> current_champion_data s = Some data
           \<and> var_champion s = var_champion st"
proof -
  let ?s1 = "load_champ_data net_x x (st\<lparr>threads := remove1 (LoadChampData x) (threads st)\<rparr>)"
  have "LoadChampData x \<in> set (threads st)"
    using assms(1) by auto
  then have one: "finish_load net_x x st = Some ?s1"
    by (rule finish_load_started)
  have "LoadChampData y \<in> set (remove1 (LoadChampData x) (threads st))"
    using assms(1) second_still_started [of "LoadChampData y" "LoadChampData x" ts]
      first_still_started [of "LoadChampData y" "LoadChampData x" ts]
    by auto
  then have "LoadChampData y \<in> set (threads ?s1)"
    by (simp add: load_champ_data_threads)
  from finish_load_started [OF this, of net_y]
  have two: "finish_load net_y y ?s1
        = Some (load_champ_data net_y y (?s1\<lparr>threads := remove1 (LoadChampData y) (threads ?s1)\<rparr>))"
    by simp
  have vc: "var_champion ?s1 = var_champion st"
    by (simp add: load_champ_data_def Let_def split: sum.splits)
  show ?thesis
    by (simp add: one two load_champ_data_success [OF assms(2)] vc)
qed

text \<open>
  C10, as the code has it. The user chooses champion A and then champion B before A's
  fetch has finished, so both threads are running. The program keeps no token of the
  current choice and each finished thread writes its detail. When the two threads finish
  one after the other, the skin list and the held detail are those of the thread that
  finished last: B's when A's fetch finishes first, A's when B's fetch finishes first,
  while the champion variable says B in both cases.
\<close>

theorem last_finished_load_wins:
  assumes "find (\<lambda>c. champ_name c = a) (champions st) = Some ca"
      and "find (\<lambda>c. champ_name c = b) (champions st) = Some cb"
      and "a \<noteq> []" and "b \<noteq> []"
      and "get_champion_detail net_a (champ_id ca) = Inr data_a"
      and "get_champion_detail net_b (champ_id cb) = Inr data_b"
  shows "(\<exists>s. Option.bind (finish_load net_a (champ_id ca) (select_champion b (select_champion a st)))
                (finish_load net_b (champ_id cb)) = Some s
            \<and> cmb_skin_values s
                = map skin_name (filter (\<lambda>s. isBase s \<noteq> Some True) (skins data_b))
            \<and> current_champion_data s = Some data_b
            \<and> var_champion s = b)
       \<and> (\<exists>s. Option.bind (finish_load net_b (champ_id cb) (select_champion b (select_champion a st)))
                (finish_load net_a (champ_id ca)) = Some s
            \<and> cmb_skin_values s
                = map skin_name (filter (\<lambda>s. isBase s \<noteq> Some True) (skins data_a))
            \<and> current_champion_data s = Some data_a
            \<and> var_champion s = b)"
proof -
  let ?st2 = "select_champion b (select_champion a st)"
  have st2: "?st2 = st\<lparr>var_champion := b,
                var_status := ''Chargement des skins'' @ ellipsis,
                threads := threads st @ [LoadChampData (champ_id ca), LoadChampData (champ_id cb)]\<rparr>"
    by (rule select_two [OF assms(1-4)])
  then have t: "threads ?st2 = threads st @ [LoadChampData (champ_id ca), LoadChampData (champ_id cb)]"
    and v: "var_champion ?st2 = b"
    by simp_all
  from finish_two [of ?st2 "threads st" "champ_id ca" "champ_id cb" net_b data_b net_a] t assms(6)
  have first: "\<exists>s. Option.bind (finish_load net_a (champ_id ca) ?st2)
                (finish_load net_b (champ_id cb)) = Some s
            \<and> cmb_skin_values s
                = map skin_name (filter (\<lambda>s. isBase s \<noteq> Some True) (skins data_b))
            \<and> current_champion_data s = Some data_b
            \<and> var_champion s = var_champion ?st2"
    by blast
  from finish_two [of ?st2 "threads st" "champ_id cb" "champ_id ca" net_a data_a net_b] t assms(5)
  have second: "\<exists>s. Option.bind (finish_load net_b (champ_id cb) ?st2)
                (finish_load net_a (champ_id ca)) = Some s
            \<and> cmb_skin_values s
                = map skin_name (filter (\<lambda>s. isBase s \<noteq> Some True) (skins data_a))
            \<and> current_champion_data s = Some data_a
            \<and> var_champion s = var_champion ?st2"
    by blast
  from first second show ?thesis
    unfolding v by blast
qed

theorem last_finished_load_wins_witness:
  "map_option cmb_skin_values ahri_then_zed = Some [''Shockblade Zed'']
   \<and> map_option cmb_skin_values zed_then_ahri = Some [''Dynasty Ahri'', ''Midnight Ahri'']"
proof -
  have fa: "find (\<lambda>c. champ_name c = ''Ahri'') (champions loaded_app)
             = Some \<lparr>champ_id = 103, champ_name = ''Ahri''\<rparr>"
    by (simp add: loaded_champions)
  have fb: "find (\<lambda>c. champ_name c = ''Zed'') (champions loaded_app)
             = Some \<lparr>champ_id = 238, champ_name = ''Zed''\<rparr>"
    by (simp add: loaded_champions)
  have na: "''Ahri'' \<noteq> []" and nb: "''Zed'' \<noteq> []" by simp_all
  have ga: "get_champion_detail detail_net (champ_id \<lparr>champ_id = 103, champ_name = ''Ahri''\<rparr>)
              = Inr ahri_detail"
    by (simp add: get_detail_ahri)
  have gb: "get_champion_detail detail_net (champ_id \<lparr>champ_id = 238, champ_name = ''Zed''\<rparr>)
              = Inr zed_detail"
    by (simp add: get_detail_zed)
  from last_finished_load_wins [OF fa fb na nb ga gb]
  show ?thesis
    by (auto simp: ahri_then_zed_def zed_then_ahri_def both_selected_def
        ahri_skin_names zed_skin_names)
qed

text \<open>
  C10, as the claim has it, fails. Ahri is chosen, then Zed while Ahri's fetch is still
  running; Zed's fetch finishes first and Ahri's after it. The champion variable says
  Zed, and the skin list and the held detail are Ahri's: the late result of the
  superseded choice has overwritten those of the newer one.
\<close>

theorem stale_detail_overwrites:
  "map_option cmb_skin_values zed_then_ahri = Some [''Dynasty Ahri'', ''Midnight Ahri'']
   \<and> map_option current_champion_data zed_then_ahri = Some (Some ahri_detail)
   \<and> map_option var_champion zed_then_ahri = Some ''Zed''
   \<and> map_option threads zed_then_ahri = Some []"
  by (simp add: zed_then_ahri_def both_selected_def finish_load_def select_champion_def
      on_champion_selected_def Let_def loaded_champions loaded_threads
      load_champ_data_success [OF get_detail_ahri] load_champ_data_success [OF get_detail_zed]
      ahri_skin_names)

end
